theory Spec2Isabelle
  imports Main "HOL-Library.Sublist"
begin

section \<open>Data model: the tables and the client-side state\<close>

text \<open>
  UUID columns are natural numbers, timestamps are milliseconds since the epoch, and a
  DATE is the number of the (UTC) day. Of each table only the columns that the
  attendance flow reads or writes are kept: the \<open>Session\<close> and \<open>AttendanceRecord\<close>
  interfaces of the components, together with \<open>teacher_id\<close> and \<open>qr_expires_at\<close>,
  which the statements and the row-level policies use. A nullable column is an
  \<open>option\<close>; \<open>is_active\<close> and \<open>is_present\<close> are read by truthiness only, so
  they are plain booleans. The bookkeeping columns \<open>created_at\<close> and \<open>updated_at\<close>
  (the latter rewritten by a trigger on every UPDATE of a session) are not part of the
  model, and neither are failures of the network: every request reaches the store.
\<close>

type_synonym uuid = nat
type_synonym timestamp = int

datatype attendance_method = QR | Face | Bluetooth | Manual

record session =
  id_s :: uuid
  class_id :: uuid
  teacher_id :: uuid
  session_date :: int
  start_time :: nat
  qr_code :: "string option"
  qr_expires_at :: "timestamp option"
  is_active :: bool
  total_students :: int
  present_count :: int

record attendance_row =
  id_a :: uuid
  session_id :: uuid
  student_id :: uuid
  is_present :: bool
  method_a :: "attendance_method option"
  marked_at :: "timestamp option"

text \<open>
  The database: the \<open>sessions\<close> and \<open>attendance\<close> tables and \<open>class_enrollments\<close>
  as pairs (class id, student id).
\<close>

record database =
  sessions :: "session list"
  attendance :: "attendance_row list"
  class_enrollments :: "(uuid \<times> uuid) list"

record profile =
  user_id :: uuid
  role :: string

section \<open>Role dispatch (pages/Dashboard.tsx)\<close>

datatype dashboard = StudentDashboard | TeacherDashboard | AdminDashboard

text \<open>
  \<open>switch (profile?.role)\<close>: a missing profile gives \<open>undefined\<close>, which only the
  default arm matches.
\<close>

definition renderDashboard :: "profile option \<Rightarrow> dashboard" where
  "renderDashboard p =
     (case map_option role p of
        None \<Rightarrow> StudentDashboard
      | Some r \<Rightarrow>
          if r = ''student'' then StudentDashboard
          else if r = ''teacher'' then TeacherDashboard
          else if r = ''admin'' then AdminDashboard
          else if r = ''counselor'' then AdminDashboard
          else StudentDashboard)"

section \<open>Row-level security policies (the schema migration)\<close>

text \<open>
  Each policy is a predicate of the caller (\<open>auth.uid()\<close>) and the row. Policies on
  one table for one command are permissive: a row is visible to the command when one
  of them holds.
\<close>

definition teachers_can_manage_own_sessions :: "uuid \<Rightarrow> session \<Rightarrow> bool" where
  "teachers_can_manage_own_sessions uid s = (uid = teacher_id s)"

definition students_can_mark_own_attendance :: "uuid \<Rightarrow> attendance_row \<Rightarrow> bool" where
  "students_can_mark_own_attendance uid a = (uid = student_id a)"

definition students_can_update_own_attendance :: "uuid \<Rightarrow> attendance_row \<Rightarrow> bool" where
  "students_can_update_own_attendance uid a = (uid = student_id a)"

definition teachers_can_manage_attendance :: "database \<Rightarrow> uuid \<Rightarrow> attendance_row \<Rightarrow> bool" where
  "teachers_can_manage_attendance db uid a =
     list_ex (\<lambda>s. id_s s = session_id a \<and> teacher_id s = uid) (sessions db)"

section \<open>Teacher dashboard: generateQRCode, startSession and stopSession\<close>

text \<open>
  \<open>generateQRCode\<close> is \<open>session-\<close>, the clock in decimal, \<open>-\<close>, and nine characters
  of a random number printed in base 36 after its leading \<open>0.\<close>. The clock value
  \<open>Date.now()\<close> and the printed random number \<open>Math.random().toString(36)\<close> are the
  arguments.
\<close>

fun show_nat :: "nat \<Rightarrow> string" where
  "show_nat n =
     (if n < 10 then [''0123456789'' ! n]
      else show_nat (n div 10) @ [''0123456789'' ! (n mod 10)])"

definition show_int :: "int \<Rightarrow> string" where
  "show_int i = (if i < 0 then CHR ''-'' # show_nat (nat (- i)) else show_nat (nat i))"

definition generateQRCode :: "timestamp \<Rightarrow> string \<Rightarrow> string" where
  "generateQRCode date_now random36 =
     ''session-'' @ show_int date_now @ ''-'' @ take 9 (drop 2 random36)"

text \<open>
  The browser's time zone: \<open>LocalTime\<close> turns an instant into local wall-clock
  milliseconds and \<open>UTC\<close> turns local wall-clock milliseconds back into an instant.
  \<open>setMinutes(getMinutes() + 30)\<close> adds the 30 minutes on the local wall clock, so
  the expiry is \<open>UTC (LocalTime now + 30 minutes)\<close>, which is 30 minutes after \<open>now\<close>
  only while the zone's offset does not change in between.
\<close>

record timezone =
  LocalTime :: "timestamp \<Rightarrow> timestamp"
  UTC :: "timestamp \<Rightarrow> timestamp"

text \<open>
  The object given to \<open>.update(...)\<close> on \<open>sessions\<close>: for each of the three columns
  the value to store, or \<open>None\<close> when the object does not name the column. The
  statement is filtered by \<open>id\<close>; the rows the policy hides from the caller are not
  touched, and the statement reports no error for them.
\<close>

record sessions_update =
  set_is_active :: "bool option"
  set_qr_code :: "string option option"
  set_qr_expires_at :: "timestamp option option"

definition apply_update :: "sessions_update \<Rightarrow> session \<Rightarrow> session" where
  "apply_update u s =
     s\<lparr>is_active := (case set_is_active u of None \<Rightarrow> is_active s | Some b \<Rightarrow> b),
       qr_code := (case set_qr_code u of None \<Rightarrow> qr_code s | Some c \<Rightarrow> c),
       qr_expires_at := (case set_qr_expires_at u of None \<Rightarrow> qr_expires_at s | Some e \<Rightarrow> e)\<rparr>"

definition update_sessions :: "uuid \<Rightarrow> sessions_update \<Rightarrow> uuid \<Rightarrow> database \<Rightarrow> database" where
  "update_sessions uid u sessionId db =
     db\<lparr>sessions :=
          map (\<lambda>s. if id_s s = sessionId \<and> teachers_can_manage_own_sessions uid s
                    then apply_update u s else s)
              (sessions db)\<rparr>"

definition startSession_update :: "timezone \<Rightarrow> timestamp \<Rightarrow> string \<Rightarrow> timestamp \<Rightarrow> sessions_update" where
  "startSession_update tz date_now random36 now =
     (let qrCode = generateQRCode date_now random36;
          qrExpiresAt = UTC tz (LocalTime tz now + 30 * 60000)
      in \<lparr>set_is_active = Some True, set_qr_code = Some (Some qrCode),
          set_qr_expires_at = Some (Some qrExpiresAt)\<rparr>)"

definition stopSession_update :: sessions_update where
  "stopSession_update =
     \<lparr>set_is_active = Some False, set_qr_code = Some None, set_qr_expires_at = Some None\<rparr>"

definition startSession ::
  "timezone \<Rightarrow> uuid \<Rightarrow> timestamp \<Rightarrow> string \<Rightarrow> timestamp \<Rightarrow> uuid \<Rightarrow> database \<Rightarrow> database" where
  "startSession tz uid date_now random36 now sessionId db =
     update_sessions uid (startSession_update tz date_now random36 now) sessionId db"

definition stopSession :: "uuid \<Rightarrow> uuid \<Rightarrow> database \<Rightarrow> database" where
  "stopSession uid sessionId db = update_sessions uid stopSession_update sessionId db"

section \<open>Student dashboard: fetchTodaySessions and handleQRScan\<close>

text \<open>
  \<open>fetchTodaySessions\<close> selects the sessions of today's date whose class the student
  is enrolled in, ordered by start time; the result replaces the component's
  \<open>todaySessions\<close>. The store does not fix the order of rows with equal start time:
  it is the physical order of the rows at the time of the query, the argument
  \<open>heap\<close>.
\<close>

definition fetchTodaySessions ::
  "(session \<Rightarrow> nat) \<Rightarrow> uuid \<Rightarrow> timestamp \<Rightarrow> database \<Rightarrow> session list" where
  "fetchTodaySessions heap uid now db =
     (let today = now div 86400000;
          enrolled = map fst (filter (\<lambda>e. snd e = uid) (class_enrollments db))
      in sort_key start_time
           (sort_key heap
              (filter (\<lambda>s. session_date s = today \<and> class_id s \<in> set enrolled)
                 (sessions db))))"

text \<open>
  The upsert of \<open>handleQRScan\<close> is called with the values only: it passes no
  \<open>onConflict\<close> columns, so the store arbitrates on the primary key and the statement
  is \<open>INSERT ... ON CONFLICT (id) DO UPDATE\<close>. The values carry no \<open>id\<close>: the new
  row takes \<open>DEFAULT gen_random_uuid()\<close>, modelled as an id that no row of the table
  has, and the conflict arm never fires. What remains is the insert with its checks:
  the INSERT policies, \<open>UNIQUE(session_id, student_id)\<close> (not the arbiter of the
  statement, so a duplicate pair is an error) and the foreign key to \<open>sessions\<close>.
\<close>

datatype pg_error = insufficient_privilege | unique_violation | foreign_key_violation

definition gen_random_uuid :: "attendance_row list \<Rightarrow> uuid" where
  "gen_random_uuid tbl = Suc (fold max (map id_a tbl) 0)"

definition upsert_attendance ::
  "uuid \<Rightarrow> uuid \<Rightarrow> uuid \<Rightarrow> bool \<Rightarrow> attendance_method \<Rightarrow> timestamp \<Rightarrow> database \<Rightarrow> pg_error + database" where
  "upsert_attendance uid sess stud present meth at db =
     (let row = \<lparr>id_a = gen_random_uuid (attendance db), session_id = sess,
                 student_id = stud, is_present = present, method_a = Some meth,
                 marked_at = Some at\<rparr>
      in if \<not> (students_can_mark_own_attendance uid row \<or> teachers_can_manage_attendance db uid row)
         then Inl insufficient_privilege
         else if list_ex (\<lambda>a. session_id a = sess \<and> student_id a = stud) (attendance db)
         then Inl unique_violation
         else if \<not> list_ex (\<lambda>s. id_s s = sess) (sessions db)
         then Inl foreign_key_violation
         else Inr (db\<lparr>attendance := attendance db @ [row]\<rparr>))"

datatype scan_toast = InvalidQRCode | AttendanceMarked | FailedToMarkAttendance

text \<open>
  \<open>handleQRScan\<close> looks the scanned code up in the component's \<open>todaySessions\<close>
  (the list of the last fetch, not the table), and never reads \<open>qr_expires_at\<close>.
  The result is the toast shown, the component's list afterwards and the database
  afterwards.
\<close>

definition handleQRScan ::
  "(session \<Rightarrow> nat) \<Rightarrow> uuid \<Rightarrow> timestamp \<Rightarrow> string \<Rightarrow> session list \<Rightarrow> database
     \<Rightarrow> scan_toast \<times> session list \<times> database" where
  "handleQRScan heap uid now qrCode todaySessions db =
     (case find (\<lambda>s. qr_code s = Some qrCode \<and> is_active s) todaySessions of
        None \<Rightarrow> (InvalidQRCode, todaySessions, db)
      | Some s \<Rightarrow>
          (case upsert_attendance uid (id_s s) uid True QR now db of
             Inl e \<Rightarrow> (FailedToMarkAttendance, todaySessions, db)
           | Inr db' \<Rightarrow> (AttendanceMarked, fetchTodaySessions heap uid now db', db')))"

section \<open>Attendance view: toggleAttendance and exportAttendance\<close>

text \<open>
  \<open>toggleAttendance\<close> runs one UPDATE on \<open>attendance\<close> filtered by \<open>id\<close>. The
  function itself checks nothing about the caller; the UPDATE policies of the table
  decide which rows the statement sees. A statement that sees no row changes nothing
  and reports no error, so the toast is always the success toast.
\<close>

datatype toggle_toast = AttendanceUpdated | FailedToUpdateAttendance

definition toggleAttendance ::
  "uuid \<Rightarrow> timestamp \<Rightarrow> uuid \<Rightarrow> bool \<Rightarrow> database \<Rightarrow> toggle_toast \<times> database" where
  "toggleAttendance uid now recordId currentStatus db =
     (AttendanceUpdated,
      db\<lparr>attendance :=
           map (\<lambda>a. if id_a a = recordId
                        \<and> (students_can_update_own_attendance uid a
                             \<or> teachers_can_manage_attendance db uid a)
                     then a\<lparr>is_present := \<not> currentStatus, method_a := Some Manual,
                            marked_at := Some now\<rparr>
                     else a)
               (attendance db)\<rparr>)"

text \<open>
  An \<open>AttendanceRecord\<close> of the view is an attendance row with the embedded
  \<open>profiles\<close> object (name and roll number of the student).
\<close>

record profiles_ref =
  name :: string
  roll_number :: "string option"

record attendance_record = attendance_row +
  profiles :: profiles_ref

text \<open>
  \<open>filteredRecords\<close> is the list the view shows and the export writes. The
  runtime's \<open>toLowerCase\<close> is an argument; \<open>includes\<close> (here \<open>includes_str\<close>) is the
  contiguous-substring test.
\<close>

definition includes_str :: "string \<Rightarrow> string \<Rightarrow> bool" where
  "includes_str s t = sublist t s"

definition filteredRecords ::
  "(string \<Rightarrow> string) \<Rightarrow> attendance_record list \<Rightarrow> string \<Rightarrow> attendance_record list" where
  "filteredRecords toLowerCase attendanceRecords searchTerm =
     filter (\<lambda>r. includes_str (toLowerCase (name (profiles r))) (toLowerCase searchTerm)
                  \<or> (case roll_number (profiles r) of
                        None \<Rightarrow> False
                      | Some n \<Rightarrow> n \<noteq> [] \<and> includes_str (toLowerCase n) (toLowerCase searchTerm)))
            attendanceRecords"

fun join :: "string \<Rightarrow> string list \<Rightarrow> string" where
  "join sep [] = []"
| "join sep [x] = x"
| "join sep (x # y # ys) = x @ sep @ join sep (y # ys)"

definition method_label :: "attendance_method \<Rightarrow> string" where
  "method_label m =
     (case m of QR \<Rightarrow> ''qr'' | Face \<Rightarrow> ''face'' | Bluetooth \<Rightarrow> ''bluetooth'' | Manual \<Rightarrow> ''manual'')"

text \<open>
  The fields of one exported row, in the order of the source. \<open>toLocaleString\<close> is the
  browser's locale-dependent date formatting, an argument here.
\<close>

definition csv_fields :: "(timestamp \<Rightarrow> string) \<Rightarrow> attendance_record \<Rightarrow> string list" where
  "csv_fields toLocaleString r =
     [name (profiles r),
      (case roll_number (profiles r) of None \<Rightarrow> [] | Some n \<Rightarrow> n),
      (if is_present r then ''Present'' else ''Absent''),
      (case method_a r of None \<Rightarrow> [] | Some m \<Rightarrow> method_label m),
      (case marked_at r of None \<Rightarrow> [] | Some t \<Rightarrow> toLocaleString t)]"

definition csv_header :: "string list" where
  "csv_header = [''Name'', ''Roll Number'', ''Status'', ''Method'', ''Marked At'']"

text \<open>
  \<open>exportAttendance\<close> builds the text from the component's \<open>filteredRecords\<close> and
  hands it to the browser as a download; it sends no request to the store. The result
  is the text and the database, which it does not touch.
\<close>

definition exportAttendance ::
  "(timestamp \<Rightarrow> string) \<Rightarrow> attendance_record list \<Rightarrow> database \<Rightarrow> string \<times> database" where
  "exportAttendance toLocaleString filtered db =
     (join [CHR 0x0A]
        (join '','' csv_header # map (\<lambda>r. join '','' (csv_fields toLocaleString r)) filtered),
      db)"

text \<open>
  Reading delimited text back: the parts of a text between the occurrences of a
  delimiter, as \<open>split\<close> gives them.
\<close>

fun split_on :: "char \<Rightarrow> string \<Rightarrow> string list" where
  "split_on c [] = [[]]"
| "split_on c (x # xs) =
     (if x = c then [] # split_on c xs
      else (case split_on c xs of [] \<Rightarrow> [[x]] | y # ys \<Rightarrow> (x # y) # ys))"

section \<open>The operations as steps of one system\<close>

text \<open>
  The state of the system is the database and, for every student, the \<open>todaySessions\<close>
  of that student's dashboard. An operation is one call of a component function with
  its caller, what it reads from its environment (clock, random number, time zone,
  physical row order, formatting functions) and its arguments.
\<close>

record world =
  db :: database
  todaySessions :: "uuid \<Rightarrow> session list"

datatype operation =
    StartSession timezone uuid timestamp string timestamp uuid
  | StopSession uuid uuid
  | FetchTodaySessions "session \<Rightarrow> nat" uuid timestamp
  | HandleQRScan "session \<Rightarrow> nat" uuid timestamp string
  | ToggleAttendance uuid timestamp uuid bool
  | ExportAttendance "timestamp \<Rightarrow> string" "string \<Rightarrow> string" "attendance_record list" string

fun exec :: "operation \<Rightarrow> world \<Rightarrow> world" where
  "exec (StartSession tz uid date_now random36 now sessionId) w =
     w\<lparr>db := startSession tz uid date_now random36 now sessionId (db w)\<rparr>"
| "exec (StopSession uid sessionId) w = w\<lparr>db := stopSession uid sessionId (db w)\<rparr>"
| "exec (FetchTodaySessions heap uid now) w =
     w\<lparr>todaySessions := (todaySessions w)(uid := fetchTodaySessions heap uid now (db w))\<rparr>"
| "exec (HandleQRScan heap uid now qrCode) w =
     (case handleQRScan heap uid now qrCode (todaySessions w uid) (db w) of
        (t, l, d) \<Rightarrow> w\<lparr>db := d, todaySessions := (todaySessions w)(uid := l)\<rparr>)"
| "exec (ToggleAttendance uid now recordId currentStatus) w =
     w\<lparr>db := snd (toggleAttendance uid now recordId currentStatus (db w))\<rparr>"
| "exec (ExportAttendance toLocaleString toLowerCase attendanceRecords searchTerm) w =
     w\<lparr>db := snd (exportAttendance toLocaleString
                     (filteredRecords toLowerCase attendanceRecords searchTerm) (db w))\<rparr>"

fun run :: "operation list \<Rightarrow> world \<Rightarrow> world" where
  "run [] w = w"
| "run (x # xs) w = run xs (exec x w)"

text \<open>
  The UPDATE that an operation sends to the \<open>sessions\<close> table, if it sends one: the
  caller, the object given to \<open>.update(...)\<close> and the id the statement filters by.
\<close>

fun sessions_write :: "operation \<Rightarrow> (uuid \<times> sessions_update \<times> uuid) option" where
  "sessions_write (StartSession tz uid date_now random36 now sessionId) =
     Some (uid, startSession_update tz date_now random36 now, sessionId)"
| "sessions_write (StopSession uid sessionId) = Some (uid, stopSession_update, sessionId)"
| "sessions_write (FetchTodaySessions heap uid now) = None"
| "sessions_write (HandleQRScan heap uid now qrCode) = None"
| "sessions_write (ToggleAttendance uid now recordId currentStatus) = None"
| "sessions_write (ExportAttendance toLocaleString toLowerCase attendanceRecords searchTerm) = None"

text \<open>
  An update object treats the code and the expiry together when it names both
  columns and gives both a value or both null.
\<close>

definition writes_both :: "sessions_update \<Rightarrow> bool" where
  "writes_both u =
     (set_qr_code u \<noteq> None \<and> set_qr_expires_at u \<noteq> None
      \<and> ((set_qr_code u = Some None) = (set_qr_expires_at u = Some None)))"

text \<open>The invariant of a session row, and of the table.\<close>

definition token_expiry_inv :: "session \<Rightarrow> bool" where
  "token_expiry_inv s = ((qr_code s = None) = (qr_expires_at s = None))"

definition sessions_inv :: "database \<Rightarrow> bool" where
  "sessions_inv d = list_all token_expiry_inv (sessions d)"

text \<open>The primary keys of the two tables.\<close>

definition primary_keys :: "database \<Rightarrow> bool" where
  "primary_keys d = (distinct (map id_s (sessions d)) \<and> distinct (map id_a (attendance d)))"

section \<open>A concrete school day\<close>

text \<open>
  One session of class 7, owned by teacher 100, on day 0; students 200 and 201 are
  enrolled; nobody has opened a dashboard yet. The teacher's browser keeps UTC as its
  local time.
\<close>

definition demo_zone :: timezone where
  "demo_zone = \<lparr>LocalTime = (\<lambda>t. t), UTC = (\<lambda>t. t)\<rparr>"

definition demo_session :: session where
  "demo_session =
     \<lparr>id_s = 1, class_id = 7, teacher_id = 100, session_date = 0, start_time = 9,
      qr_code = None, qr_expires_at = None, is_active = False, total_students = 3,
      present_count = 0\<rparr>"

definition demo_db :: database where
  "demo_db =
     \<lparr>sessions = [demo_session], attendance = [], class_enrollments = [(7, 200), (7, 201)]\<rparr>"

definition demo_world :: world where
  "demo_world = \<lparr>db = demo_db, todaySessions = (\<lambda>u. [])\<rparr>"

text \<open>
  The teacher starts the session at time 0; the random number prints as
  \<open>0.k3f9x2m1qz7\<close>, so the code is \<open>session-0-k3f9x2m1q\<close>, and the expiry is 1800000.
\<close>

definition demo_started :: database where
  "demo_started = startSession demo_zone 100 0 ''0.k3f9x2m1qz7'' 0 1 demo_db"

text \<open>
  From there, either the teacher starts the session again at time 1000 (the random
  number prints as \<open>0.w8d4c6b2a5\<close>, so the new code is \<open>session-1000-w8d4c6b2a\<close>),
  or the teacher stops the session.
\<close>

definition demo_restarted :: database where
  "demo_restarted = startSession demo_zone 100 1000 ''0.w8d4c6b2a5'' 1000 1 demo_started"

definition demo_stopped :: database where
  "demo_stopped = stopSession 100 1 demo_started"

text \<open>The day after the first start and a scan by student 200 at time 1000.\<close>

definition demo_row :: attendance_row where
  "demo_row =
     \<lparr>id_a = 1, session_id = 1, student_id = 200, is_present = True, method_a = Some QR,
      marked_at = Some 1000\<rparr>"

definition demo_marked :: database where
  "demo_marked = demo_started\<lparr>attendance := [demo_row]\<rparr>"

text \<open>The record of that scan as the attendance view lists it, for a student named Doe, Jane.\<close>

definition demo_record :: attendance_record where
  "demo_record =
     \<lparr>id_a = 1, session_id = 1, student_id = 200, is_present = True, method_a = Some QR,
      marked_at = Some 1000, profiles = \<lparr>name = ''Doe, Jane'', roll_number = Some ''R7''\<rparr>\<rparr>"

section \<open>Properties\<close>

lemmas demo_defs = demo_zone_def demo_session_def demo_db_def demo_world_def demo_started_def
  demo_restarted_def demo_stopped_def demo_row_def demo_marked_def demo_record_def

lemmas op_defs = startSession_def stopSession_def update_sessions_def apply_update_def
  startSession_update_def stopSession_update_def fetchTodaySessions_def handleQRScan_def
  upsert_attendance_def gen_random_uuid_def toggleAttendance_def
  teachers_can_manage_own_sessions_def students_can_mark_own_attendance_def
  students_can_update_own_attendance_def teachers_can_manage_attendance_def

subsection \<open>The concrete day, evaluated\<close>

lemma generateQRCode_demo: "generateQRCode 0 ''0.k3f9x2m1qz7'' = ''session-0-k3f9x2m1q''"
  by (simp add: generateQRCode_def show_int_def)

lemma generateQRCode_demo2: "generateQRCode 1000 ''0.w8d4c6b2a5'' = ''session-1000-w8d4c6b2a''"
  by (simp add: generateQRCode_def show_int_def)

lemma demo_started_eval:
  "demo_started =
     demo_db\<lparr>sessions := [demo_session\<lparr>is_active := True,
       qr_code := Some ''session-0-k3f9x2m1q'', qr_expires_at := Some 1800000\<rparr>]\<rparr>"
  by (simp add: demo_defs op_defs generateQRCode_demo Let_def)

lemma demo_restarted_eval:
  "demo_restarted =
     demo_db\<lparr>sessions := [demo_session\<lparr>is_active := True,
       qr_code := Some ''session-1000-w8d4c6b2a'', qr_expires_at := Some 1801000\<rparr>]\<rparr>"
  by (simp add: demo_restarted_def demo_started_eval)
     (simp add: demo_defs op_defs generateQRCode_demo2 Let_def)

lemma demo_stopped_eval: "demo_stopped = demo_db"
  by (simp add: demo_stopped_def demo_started_eval) (simp add: demo_defs op_defs)

subsection \<open>What a scan can and cannot change\<close>

lemma handleQRScan_no_match:
  "\<not> list_ex (\<lambda>s. qr_code s = Some qrCode \<and> is_active s) l \<Longrightarrow>
   handleQRScan h uid now qrCode l d = (InvalidQRCode, l, d)"
proof -
  assume "\<not> list_ex (\<lambda>s. qr_code s = Some qrCode \<and> is_active s) l"
  then have "find (\<lambda>s. qr_code s = Some qrCode \<and> is_active s) l = None"
    unfolding find_None_iff list_ex_iff by blast
  then show ?thesis by (simp add: handleQRScan_def)
qed

lemma handleQRScan_rejected_unchanged:
  "fst (handleQRScan h uid now qrCode l d) \<noteq> AttendanceMarked \<Longrightarrow>
   snd (handleQRScan h uid now qrCode l d) = (l, d)"
  by (auto simp: handleQRScan_def split: option.splits sum.splits)

lemma upsert_attendance_duplicate:
  assumes "list_ex (\<lambda>a. session_id a = sess \<and> student_id a = uid) (attendance d)"
  shows "upsert_attendance uid sess uid p m t d = Inl unique_violation"
  using assms by (simp add: upsert_attendance_def students_can_mark_own_attendance_def)

lemma find_code_ignores_expiry:
  "find (\<lambda>s. qr_code s = Some c \<and> is_active s) (map (\<lambda>s. s\<lparr>qr_expires_at := e s\<rparr>) l)
   = map_option (\<lambda>s. s\<lparr>qr_expires_at := e s\<rparr>)
       (find (\<lambda>s. qr_code s = Some c \<and> is_active s) l)"
  by (induction l) simp_all

lemma handleQRScan_ignores_expiry:
  "fst (handleQRScan h uid now c (map (\<lambda>s. s\<lparr>qr_expires_at := e s\<rparr>) l) d)
     = fst (handleQRScan h uid now c l d)
   \<and> snd (snd (handleQRScan h uid now c (map (\<lambda>s. s\<lparr>qr_expires_at := e s\<rparr>) l) d))
     = snd (snd (handleQRScan h uid now c l d))"
  by (simp add: handleQRScan_def find_code_ignores_expiry split: option.splits sum.splits)

lemma sessions_upsert_attendance:
  "upsert_attendance uid sess stud p m t d = Inr d' \<Longrightarrow> sessions d' = sessions d"
  by (auto simp: upsert_attendance_def Let_def split: if_splits)

lemma sessions_handleQRScan:
  "sessions (snd (snd (handleQRScan h uid now c l d))) = sessions d"
  by (auto simp: handleQRScan_def split: option.splits sum.splits
           dest: sessions_upsert_attendance)

lemma sessions_toggleAttendance:
  "sessions (snd (toggleAttendance uid now rid cur d)) = sessions d"
  by (simp add: toggleAttendance_def)

lemma snd_exportAttendance:
  "snd (exportAttendance f recs d) = d"
  by (simp add: exportAttendance_def)

lemma sessions_exec_HandleQRScan:
  "sessions (db (exec (HandleQRScan h uid now c) w)) = sessions (db w)"
proof -
  obtain t l d where hq: "handleQRScan h uid now c (todaySessions w uid) (db w) = (t, l, d)"
    by (cases "handleQRScan h uid now c (todaySessions w uid) (db w)") auto
  then have "sessions d = sessions (db w)"
    using sessions_handleQRScan [of h uid now c "todaySessions w uid" "db w"] by simp
  with hq show ?thesis by simp
qed

lemma sessions_exec_write:
  "sessions (db (exec x w)) =
     (case sessions_write x of
        None \<Rightarrow> sessions (db w)
      | Some (uid, u, sid) \<Rightarrow> sessions (update_sessions uid u sid (db w)))"
proof (cases x)
  case (HandleQRScan h uid now c)
  then show ?thesis by (simp only: sessions_exec_HandleQRScan sessions_write.simps option.case)
qed (simp_all add: startSession_def stopSession_def sessions_toggleAttendance
       snd_exportAttendance)

lemma writes_both_sessions_write:
  "(case sessions_write x of None \<Rightarrow> True | Some (uid, u, sid) \<Rightarrow> writes_both u)"
  by (cases x)
     (simp_all add: writes_both_def startSession_update_def stopSession_update_def Let_def)

lemma present_count_update_sessions:
  "map present_count (sessions (update_sessions uid u sid d)) = map present_count (sessions d)"
  by (simp add: update_sessions_def apply_update_def comp_def)

lemma present_count_exec:
  "map present_count (sessions (db (exec x w))) = map present_count (sessions (db w))"
  unfolding sessions_exec_write
  by (simp add: present_count_update_sessions split: option.splits)

subsection \<open>The token and its expiry\<close>

lemma sessions_inv_update_sessions:
  "writes_both u \<Longrightarrow> sessions_inv d \<Longrightarrow> sessions_inv (update_sessions uid u sid d)"
  by (auto simp: sessions_inv_def update_sessions_def apply_update_def writes_both_def
        list_all_iff token_expiry_inv_def split: option.splits)

lemma sessions_inv_cong: "sessions d' = sessions d \<Longrightarrow> sessions_inv d' = sessions_inv d"
  by (simp add: sessions_inv_def)

lemma sessions_inv_exec: "sessions_inv (db w) \<Longrightarrow> sessions_inv (db (exec x w))"
proof (cases "sessions_write x")
  case None
  assume "sessions_inv (db w)"
  with None show ?thesis
    using sessions_inv_cong [of "db (exec x w)" "db w"] sessions_exec_write [of x w] by simp
next
  case (Some t)
  assume i: "sessions_inv (db w)"
  obtain uid u sid where t: "t = (uid, u, sid)" by (cases t) auto
  with Some have "writes_both u" using writes_both_sessions_write [of x] by simp
  then have "sessions_inv (update_sessions uid u sid (db w))"
    using i by (rule sessions_inv_update_sessions)
  moreover have "sessions (db (exec x w)) = sessions (update_sessions uid u sid (db w))"
    using sessions_exec_write [of x w] Some t by simp
  ultimately show ?thesis using sessions_inv_cong by blast
qed

lemma sessions_inv_run: "sessions_inv (db w) \<Longrightarrow> sessions_inv (db (run xs w))"
  by (induction xs arbitrary: w) (simp_all add: sessions_inv_exec)

subsection \<open>Rows selected by their primary key\<close>

lemma filter_key_single:
  "distinct (map f xs) \<Longrightarrow> x \<in> set xs \<Longrightarrow> filter (\<lambda>y. f y = f x) xs = [x]"
proof (induction xs)
  case Nil
  then show ?case by simp
next
  case (Cons a xs)
  show ?case
  proof (cases "a = x")
    case True
    with Cons.prems have "\<forall>y\<in>set xs. f y \<noteq> f x" by (force simp: image_iff)
    then have "filter (\<lambda>y. f y = f x) xs = []" by (simp add: filter_empty_conv)
    with True show ?thesis by simp
  next
    case False
    with Cons.prems have "x \<in> set xs" and "f a \<noteq> f x" by auto
    with Cons show ?thesis by simp
  qed
qed

lemma filter_key_map:
  "(\<And>x. f (g x) = f x) \<Longrightarrow>
   filter (\<lambda>x. f x = v) (map g xs) = map g (filter (\<lambda>x. f x = v) xs)"
  by (induction xs) simp_all

lemma filter_other_keys_map:
  "(\<And>x. f (g x) = f x) \<Longrightarrow>
   filter (\<lambda>x. f x \<noteq> v) (map (\<lambda>x. if f x = v \<and> Q x then g x else x) xs)
   = filter (\<lambda>x. f x \<noteq> v) xs"
  by (induction xs) simp_all

lemma id_s_apply_update: "id_s (apply_update u s) = id_s s"
  by (simp add: apply_update_def)

lemma update_sessions_row:
  assumes "distinct (map id_s (sessions d))" "s \<in> set (sessions d)" "id_s s = sid"
    "teacher_id s = uid"
  shows "filter (\<lambda>x. id_s x = sid) (sessions (update_sessions uid u sid d)) = [apply_update u s]"
proof -
  have f: "filter (\<lambda>x. id_s x = sid) (sessions d) = [s]"
    using filter_key_single [of id_s "sessions d" s] assms by simp
  have "filter (\<lambda>x. id_s x = sid) (sessions (update_sessions uid u sid d))
        = map (\<lambda>s. if id_s s = sid \<and> teachers_can_manage_own_sessions uid s
                    then apply_update u s else s) (filter (\<lambda>x. id_s x = sid) (sessions d))"
    unfolding update_sessions_def by (simp add: filter_key_map id_s_apply_update)
  with f assms show ?thesis by (simp add: teachers_can_manage_own_sessions_def)
qed

lemma update_sessions_other_rows:
  "filter (\<lambda>x. id_s x \<noteq> sid) (sessions (update_sessions uid u sid d))
   = filter (\<lambda>x. id_s x \<noteq> sid) (sessions d)"
  unfolding update_sessions_def
  by (simp add: filter_other_keys_map id_s_apply_update)

lemma apply_startSession_update:
  "apply_update (startSession_update tz t0 r now) s
   = s\<lparr>is_active := True, qr_code := Some (generateQRCode t0 r),
       qr_expires_at := Some (UTC tz (LocalTime tz now + 1800000))\<rparr>"
  by (simp add: apply_update_def startSession_update_def Let_def)

lemma apply_stopSession_update:
  "apply_update stopSession_update s
   = s\<lparr>is_active := False, qr_code := None, qr_expires_at := None\<rparr>"
  by (simp add: apply_update_def stopSession_update_def)

lemma stopSession_idem: "stopSession uid sid (stopSession uid sid d) = stopSession uid sid d"
  by (simp add: stopSession_def update_sessions_def apply_update_def stopSession_update_def
        teachers_can_manage_own_sessions_def comp_def)


subsection \<open>Manual override and export\<close>



lemma split_on_not_Nil: "split_on c s \<noteq> []"
  by (induction s) (auto split: list.splits)

lemma length_split_on: "length (split_on c s) = Suc (count_list s c)"
proof (induction s)
  case Nil
  then show ?case by simp
next
  case (Cons x xs)
  then show ?case
    using split_on_not_Nil [of c xs] by (cases "split_on c xs") auto
qed

subsection \<open>The claims\<close>

text \<open>
  C10. If the scanned code matches no session that is both in the student's fetched
  list and active, the scan is rejected as an invalid code and neither the list nor the
  database changes; more generally, every scan that does not end in the success toast
  leaves the attendance table, and the whole database, as it was.
\<close>

theorem scan_without_match_rejected:
  "(\<not> list_ex (\<lambda>s. qr_code s = Some qrCode \<and> is_active s) l \<longrightarrow>
      handleQRScan h uid now qrCode l d = (InvalidQRCode, l, d))
   \<and> (fst (handleQRScan h uid now qrCode l d) \<noteq> AttendanceMarked \<longrightarrow>
      attendance (snd (snd (handleQRScan h uid now qrCode l d))) = attendance d
      \<and> snd (snd (handleQRScan h uid now qrCode l d)) = d)"
  using handleQRScan_no_match [of qrCode l h uid now d]
        handleQRScan_rejected_unchanged [of h uid now qrCode l d]
  by simp

theorem scan_without_match_rejected_witness:
  "fetchTodaySessions id_s 200 1000 demo_started = sessions demo_started
   \<and> \<not> list_ex (\<lambda>s. qr_code s = Some ''session-0-zzzzzzzzz'' \<and> is_active s)
        (fetchTodaySessions id_s 200 1000 demo_started)
   \<and> handleQRScan id_s 200 1000 ''session-0-zzzzzzzzz''
        (fetchTodaySessions id_s 200 1000 demo_started) demo_started
      = (InvalidQRCode, fetchTodaySessions id_s 200 1000 demo_started, demo_started)
   \<and> attendance demo_started = []"
  using scan_without_match_rejected [of "''session-0-zzzzzzzzz''"
      "fetchTodaySessions id_s 200 1000 demo_started" id_s 200 1000 demo_started]
  by (simp add: demo_started_eval) (simp add: op_defs demo_defs)

text \<open>
  C2. The claim is that a scan of the current code after its expiry instant fails. The
  session is started at time 0, so its code expires at 1800000 (the source's
  ``QR valid for 30 minutes''). Student 200 fetches the list and scans the code at
  1800001: the scan ends in the success toast and an attendance row is inserted, since
  \<open>handleQRScan\<close> never compares the clock with \<open>qr_expires_at\<close>.
\<close>

theorem expired_code_still_marks:
  "sessions demo_started
     = [demo_session\<lparr>is_active := True, qr_code := Some ''session-0-k3f9x2m1q'',
                     qr_expires_at := Some 1800000\<rparr>]
   \<and> handleQRScan h 200 1800001 ''session-0-k3f9x2m1q''
        (fetchTodaySessions h 200 1800001 demo_started) demo_started
      = (AttendanceMarked, sessions demo_started,
         demo_started
           \<lparr>attendance := [\<lparr>id_a = 1, session_id = 1, student_id = 200, is_present = True,
                             method_a = Some QR, marked_at = Some 1800001\<rparr>]\<rparr>)"
  by (simp add: demo_started_eval) (simp add: op_defs demo_defs)

text \<open>
  C3. The claim is that a repeated scan updates the one record of the (session,
  student) pair and never fails. Student 200 scans the valid code at time 1000, which
  inserts the record; the same student scans the same code again at time 2000. The
  second statement inserts a row with a fresh \<open>id\<close>, violates
  \<open>UNIQUE(session_id, student_id)\<close> and ends in the failure toast; the record keeps
  the timestamp 1000 of the first scan.
\<close>

theorem second_scan_fails:
  "db (run [StartSession demo_zone 100 0 ''0.k3f9x2m1qz7'' 0 1, FetchTodaySessions h 200 500,
            HandleQRScan h 200 1000 ''session-0-k3f9x2m1q''] demo_world)
     = demo_started
         \<lparr>attendance := [\<lparr>id_a = 1, session_id = 1, student_id = 200, is_present = True,
                           method_a = Some QR, marked_at = Some 1000\<rparr>]\<rparr>
   \<and> handleQRScan h 200 2000 ''session-0-k3f9x2m1q''
        (fetchTodaySessions h 200 2000 demo_started)
        (demo_started
           \<lparr>attendance := [\<lparr>id_a = 1, session_id = 1, student_id = 200, is_present = True,
                             method_a = Some QR, marked_at = Some 1000\<rparr>]\<rparr>)
      = (FailedToMarkAttendance, fetchTodaySessions h 200 2000 demo_started,
         demo_started
           \<lparr>attendance := [\<lparr>id_a = 1, session_id = 1, student_id = 200, is_present = True,
                             method_a = Some QR, marked_at = Some 1000\<rparr>]\<rparr>)"
  by (simp add: op_defs demo_defs generateQRCode_demo Let_def)


text \<open>
  C4, as amended. No scan changes a session's \<open>present_count\<close>: \<open>handleQRScan\<close>
  writes the attendance table only and leaves the sessions table as it was, and no
  sequence of operations of the attendance flow changes the \<open>present_count\<close> of any
  session row.
\<close>

theorem present_count_never_written:
  "map present_count (sessions (db (run xs w))) = map present_count (sessions (db w))
   \<and> sessions (snd (snd (handleQRScan h uid now c l d))) = sessions d"
proof
  show "map present_count (sessions (db (run xs w))) = map present_count (sessions (db w))"
    by (induction xs arbitrary: w) (simp_all add: present_count_exec)
  show "sessions (snd (snd (handleQRScan h uid now c l d))) = sessions d"
    by (rule sessions_handleQRScan)
qed

text \<open>
  C4 as stated fails: student 200 scans twice and student 201 once, both students end
  up with an attendance record, and the session's \<open>present_count\<close> is still 0, not 2.
\<close>

theorem present_count_counterexample:
  "map present_count
     (sessions (db (run [StartSession demo_zone 100 0 ''0.k3f9x2m1qz7'' 0 1,
                         FetchTodaySessions id_s 200 500,
                         HandleQRScan id_s 200 1000 ''session-0-k3f9x2m1q'',
                         HandleQRScan id_s 200 2000 ''session-0-k3f9x2m1q'',
                         FetchTodaySessions id_s 201 2500,
                         HandleQRScan id_s 201 3000 ''session-0-k3f9x2m1q'']
                      demo_world))) = [0]
   \<and> map student_id
     (attendance (db (run [StartSession demo_zone 100 0 ''0.k3f9x2m1qz7'' 0 1,
                         FetchTodaySessions id_s 200 500,
                         HandleQRScan id_s 200 1000 ''session-0-k3f9x2m1q'',
                         HandleQRScan id_s 200 2000 ''session-0-k3f9x2m1q'',
                         FetchTodaySessions id_s 201 2500,
                         HandleQRScan id_s 201 3000 ''session-0-k3f9x2m1q'']
                      demo_world))) = [200, 201]"
  by (simp add: op_defs demo_defs generateQRCode_demo Let_def)

text \<open>
  C5. Every operation preserves the invariant that a session's code and its expiry are
  both present or both absent. The invariant survives every sequence of operations.
  What an operation does to the sessions table is exactly the one UPDATE it sends, if
  it sends one, and the object of that UPDATE names both columns and gives both a value
  or both null: no operation sets or clears only one of them. For a session that exists
  and is owned by the caller, \<open>startSession\<close> stores the generated code and the expiry
  together in the session's row, \<open>stopSession\<close> stores null in both, and both leave
  every other row as it was.
\<close>

theorem token_and_expiry_together:
  "(sessions_inv (db w) \<longrightarrow> sessions_inv (db (run xs w)))
   \<and> sessions (db (exec x w)) =
       (case sessions_write x of
          None \<Rightarrow> sessions (db w)
        | Some (c, u, i) \<Rightarrow> sessions (update_sessions c u i (db w)))
   \<and> (case sessions_write x of None \<Rightarrow> True | Some (c, u, i) \<Rightarrow> writes_both u)
   \<and> (primary_keys d \<and> s \<in> set (sessions d) \<and> id_s s = sid \<and> teacher_id s = uid \<longrightarrow>
        filter (\<lambda>x. id_s x = sid) (sessions (startSession tz uid t0 r now sid d))
          = [s\<lparr>is_active := True, qr_code := Some (generateQRCode t0 r),
               qr_expires_at := Some (UTC tz (LocalTime tz now + 1800000))\<rparr>]
        \<and> filter (\<lambda>x. id_s x \<noteq> sid) (sessions (startSession tz uid t0 r now sid d))
          = filter (\<lambda>x. id_s x \<noteq> sid) (sessions d)
        \<and> filter (\<lambda>x. id_s x = sid) (sessions (stopSession uid sid d))
          = [s\<lparr>is_active := False, qr_code := None, qr_expires_at := None\<rparr>]
        \<and> filter (\<lambda>x. id_s x \<noteq> sid) (sessions (stopSession uid sid d))
          = filter (\<lambda>x. id_s x \<noteq> sid) (sessions d))"
proof (intro conjI impI)
  show "sessions_inv (db (run xs w))" if "sessions_inv (db w)"
    using that by (rule sessions_inv_run)
  show "sessions (db (exec x w)) =
       (case sessions_write x of
          None \<Rightarrow> sessions (db w)
        | Some (c, u, i) \<Rightarrow> sessions (update_sessions c u i (db w)))"
    by (rule sessions_exec_write)
  show "case sessions_write x of None \<Rightarrow> True | Some (c, u, i) \<Rightarrow> writes_both u"
    by (rule writes_both_sessions_write)
next
  assume a: "primary_keys d \<and> s \<in> set (sessions d) \<and> id_s s = sid \<and> teacher_id s = uid"
  then have dist: "distinct (map id_s (sessions d))" by (simp add: primary_keys_def)
  from a have s: "s \<in> set (sessions d)" "id_s s = sid" "teacher_id s = uid" by simp_all
  show "filter (\<lambda>x. id_s x = sid) (sessions (startSession tz uid t0 r now sid d))
          = [s\<lparr>is_active := True, qr_code := Some (generateQRCode t0 r),
               qr_expires_at := Some (UTC tz (LocalTime tz now + 1800000))\<rparr>]"
    unfolding startSession_def
    using update_sessions_row [OF dist s, of "startSession_update tz t0 r now"]
    by (simp add: apply_startSession_update)
  show "filter (\<lambda>x. id_s x = sid) (sessions (stopSession uid sid d))
          = [s\<lparr>is_active := False, qr_code := None, qr_expires_at := None\<rparr>]"
    unfolding stopSession_def
    using update_sessions_row [OF dist s, of stopSession_update]
    by (simp add: apply_stopSession_update)
next
  show "filter (\<lambda>x. id_s x \<noteq> sid) (sessions (startSession tz uid t0 r now sid d))
          = filter (\<lambda>x. id_s x \<noteq> sid) (sessions d)"
    unfolding startSession_def by (rule update_sessions_other_rows)
  show "filter (\<lambda>x. id_s x \<noteq> sid) (sessions (stopSession uid sid d))
          = filter (\<lambda>x. id_s x \<noteq> sid) (sessions d)"
    unfolding stopSession_def by (rule update_sessions_other_rows)
qed

theorem token_and_expiry_together_witness:
  "sessions_inv (db demo_world)
   \<and> sessions_inv (db (run [StartSession demo_zone 100 0 ''0.k3f9x2m1qz7'' 0 1,
                            FetchTodaySessions id_s 200 500,
                            HandleQRScan id_s 200 1000 ''session-0-k3f9x2m1q'',
                            StopSession 100 1] demo_world))
   \<and> sessions (db (exec (StopSession 100 1) \<lparr>db = demo_started, todaySessions = (\<lambda>u. [])\<rparr>))
       = sessions (update_sessions 100 stopSession_update 1 demo_started)
   \<and> writes_both stopSession_update
   \<and> primary_keys demo_started
   \<and> sessions demo_started
       = [demo_session\<lparr>is_active := True, qr_code := Some ''session-0-k3f9x2m1q'',
                       qr_expires_at := Some 1800000\<rparr>]
   \<and> sessions (startSession demo_zone 100 1000 ''0.w8d4c6b2a5'' 1000 1 demo_started)
       = [demo_session\<lparr>is_active := True, qr_code := Some ''session-1000-w8d4c6b2a'',
                       qr_expires_at := Some 1801000\<rparr>]
   \<and> sessions (stopSession 100 1 demo_started)
       = [demo_session\<lparr>is_active := False, qr_code := None, qr_expires_at := None\<rparr>]"
proof -
  let ?s = "demo_session\<lparr>is_active := True, qr_code := Some ''session-0-k3f9x2m1q'',
                         qr_expires_at := Some 1800000\<rparr>"
  have st: "sessions demo_started = [?s]" by (simp add: demo_started_eval demo_db_def)
  have pk: "primary_keys demo_started"
    by (simp add: primary_keys_def demo_started_eval demo_db_def)
  have hyp: "primary_keys demo_started \<and> ?s \<in> set (sessions demo_started) \<and> id_s ?s = 1
             \<and> teacher_id ?s = 100"
    using pk st by (simp add: demo_session_def)
  have inv0: "sessions_inv (db demo_world)"
    by (simp add: sessions_inv_def token_expiry_inv_def demo_defs)
  show ?thesis
    using token_and_expiry_together [where w = demo_world
        and xs = "[StartSession demo_zone 100 0 ''0.k3f9x2m1qz7'' 0 1,
                   FetchTodaySessions id_s 200 500,
                   HandleQRScan id_s 200 1000 ''session-0-k3f9x2m1q'', StopSession 100 1]"
        and d = demo_started and s = ?s and sid = 1 and uid = 100 and tz = demo_zone
        and ?t0.0 = 1000 and r = "''0.w8d4c6b2a5''" and now = 1000]
      token_and_expiry_together [where w = "\<lparr>db = demo_started, todaySessions = (\<lambda>u. [])\<rparr>"
        and x = "StopSession 100 1"]
      hyp inv0 st
    by (simp add: demo_started_eval)
       (simp add: op_defs demo_defs generateQRCode_demo generateQRCode_demo2 Let_def)
qed


text \<open>
  C1. The claim is that after a second start the prior code is rejected. After both
  starts the session's row does hold exactly one code, the new one. But student 200
  fetched the list at time 500, after the first start; the teacher starts the session
  again at time 1000; the student scans the prior code at time 2000, long before its
  expiry at 1800000. \<open>handleQRScan\<close> compares the scanned code with the student's
  list, which still holds the prior code: the scan ends in the success toast and
  inserts an attendance row, and a scan of the new, current code is rejected.
\<close>

theorem stale_list_accepts_prior_token:
  "sessions demo_started
     = [demo_session\<lparr>is_active := True, qr_code := Some ''session-0-k3f9x2m1q'',
                     qr_expires_at := Some 1800000\<rparr>]
   \<and> sessions demo_restarted
     = [demo_session\<lparr>is_active := True, qr_code := Some ''session-1000-w8d4c6b2a'',
                     qr_expires_at := Some 1801000\<rparr>]
   \<and> handleQRScan h 200 2000 ''session-0-k3f9x2m1q''
        (fetchTodaySessions h 200 500 demo_started) demo_restarted
      = (AttendanceMarked, sessions demo_restarted,
         demo_restarted
           \<lparr>attendance := [\<lparr>id_a = 1, session_id = 1, student_id = 200, is_present = True,
                             method_a = Some QR, marked_at = Some 2000\<rparr>]\<rparr>)
   \<and> handleQRScan h 200 2000 ''session-1000-w8d4c6b2a''
        (fetchTodaySessions h 200 500 demo_started) demo_restarted
      = (InvalidQRCode, fetchTodaySessions h 200 500 demo_started, demo_restarted)"
  by (simp add: demo_started_eval demo_restarted_eval) (simp add: op_defs demo_defs)

text \<open>
  C6. The claim is that every scan after a stop fails. \<open>stopSession\<close> does clear the
  code and the expiry and marks the session inactive, and a second stop changes
  nothing. But student 200 fetched the list at time 500 while the session was active;
  the teacher stops the session; the student scans the cleared code at time 2000.
  \<open>handleQRScan\<close> compares the scanned code with the student's list from before the
  stop: the scan ends in the success toast and inserts an attendance row for the
  stopped session.
\<close>

theorem stale_list_accepts_cleared_token:
  "sessions demo_stopped
     = [demo_session\<lparr>is_active := False, qr_code := None, qr_expires_at := None\<rparr>]
   \<and> stopSession 100 1 demo_stopped = demo_stopped
   \<and> handleQRScan h 200 2000 ''session-0-k3f9x2m1q''
        (fetchTodaySessions h 200 500 demo_started) demo_stopped
      = (AttendanceMarked, sessions demo_stopped,
         demo_stopped
           \<lparr>attendance := [\<lparr>id_a = 1, session_id = 1, student_id = 200, is_present = True,
                             method_a = Some QR, marked_at = Some 2000\<rparr>]\<rparr>)"
  by (simp add: demo_started_eval demo_stopped_eval) (simp add: op_defs demo_defs)




text \<open>
  C8. The claim is that every listed record gives one delimited row of exactly five
  fields. The view lists the record of a student named \<open>Doe, Jane\<close>. The export does
  not touch the database, and its text is the header row, a newline and the record's
  row; but the fields are joined with no quoting, so the comma of the name is a
  delimiter of the row: the header row has five parts and the record's row has at
  least six, whatever the date formatting.
\<close>

theorem export_row_has_six_parts:
  "fst (exportAttendance f [demo_record] d)
     = ''Name,Roll Number,Status,Method,Marked At'' @ [CHR 0x0A]
       @ ''Doe, Jane,R7,Present,qr,'' @ f 1000
   \<and> snd (exportAttendance f [demo_record] d) = d
   \<and> length (split_on (CHR '','') ''Name,Roll Number,Status,Method,Marked At'') = 5
   \<and> 6 \<le> length (split_on (CHR '','') (''Doe, Jane,R7,Present,qr,'' @ f 1000))"
  by (simp add: exportAttendance_def csv_header_def csv_fields_def demo_record_def
        method_label_def length_split_on)

text \<open>
  C9. Role dispatch is total: every profile, present or missing, selects exactly one
  dashboard; \<open>student\<close> selects the student dashboard, \<open>teacher\<close> the teacher
  dashboard, \<open>admin\<close> and \<open>counselor\<close> the admin dashboard, and every other role
  value and a missing profile fall back to the student dashboard.
\<close>

theorem renderDashboard_dispatch:
  "(\<exists>!d. renderDashboard p = d)
   \<and> (map_option role p = Some ''student'' \<longrightarrow> renderDashboard p = StudentDashboard)
   \<and> (map_option role p = Some ''teacher'' \<longrightarrow> renderDashboard p = TeacherDashboard)
   \<and> (map_option role p = Some ''admin'' \<longrightarrow> renderDashboard p = AdminDashboard)
   \<and> (map_option role p = Some ''counselor'' \<longrightarrow> renderDashboard p = AdminDashboard)
   \<and> (map_option role p \<notin> {Some ''student'', Some ''teacher'', Some ''admin'', Some ''counselor''}
        \<longrightarrow> renderDashboard p = StudentDashboard)"
  by (auto simp: renderDashboard_def split: option.splits)

theorem renderDashboard_dispatch_witness:
  "renderDashboard (Some \<lparr>user_id = 1, role = ''counselor''\<rparr>) = AdminDashboard
   \<and> renderDashboard (Some \<lparr>user_id = 1, role = ''teacher''\<rparr>) = TeacherDashboard
   \<and> renderDashboard (Some \<lparr>user_id = 1, role = ''student''\<rparr>) = StudentDashboard
   \<and> renderDashboard (Some \<lparr>user_id = 1, role = ''admin''\<rparr>) = AdminDashboard
   \<and> renderDashboard (Some \<lparr>user_id = 1, role = ''parent''\<rparr>) = StudentDashboard
   \<and> renderDashboard None = StudentDashboard"
  using renderDashboard_dispatch [of "Some \<lparr>user_id = 1, role = ''counselor''\<rparr>"]
        renderDashboard_dispatch [of "Some \<lparr>user_id = 1, role = ''teacher''\<rparr>"]
        renderDashboard_dispatch [of "Some \<lparr>user_id = 1, role = ''student''\<rparr>"]
        renderDashboard_dispatch [of "Some \<lparr>user_id = 1, role = ''admin''\<rparr>"]
        renderDashboard_dispatch [of "Some \<lparr>user_id = 1, role = ''parent''\<rparr>"]
        renderDashboard_dispatch [of None]
  by simp

end
